theory Spec2Isabelle
  imports Main "HOL-Library.Multiset" "HOL-Library.AList"
begin

section \<open>Data model (src/types/index.ts)\<close>

datatype Priority = Low | Medium | High | Urgent

datatype Status = Todo | InProgress | Completed | Cancelled

text \<open>
  A JavaScript \<^verbatim>\<open>Date\<close> holds a time value: an integral number of milliseconds since the
  epoch, or NaN (an "Invalid Date").
\<close>

datatype Date = TimeValue int | InvalidDate

text \<open>
  The interface \<^verbatim>\<open>Task\<close>. Optional members are options. The record is polymorphic in the
  type of the priority slot: the engine works on \<open>Priority Task\<close>; the route handlers build
  their objects from untyped AI output and cast them with \<^verbatim>\<open>as Task\<close>, which checks
  nothing, so their result is a \<open>string Task\<close>. The member \<^verbatim>\<open>id\<close> is named \<open>task_id\<close>.
\<close>

record 'p Task =
  task_id :: string
  title :: string
  description :: "string option"
  priority :: 'p
  status :: Status
  category :: string
  dueDate :: "Date option"
  createdAt :: Date
  updatedAt :: Date
  tags :: "string list"
  aiGenerated :: bool
  sourceDocument :: "string option"

datatype SortOption = SortPriority | SortDueDate | SortCreatedAt | SortTitle | SortStatus

text \<open>The interface \<^verbatim>\<open>TaskStats\<close>; the member \<^verbatim>\<open>total\<close> is named \<open>total_n\<close>.\<close>

record TaskStats =
  total_n :: nat
  completed :: nat
  inProgress :: nat
  overdue :: nat
  byPriority :: "Priority \<Rightarrow> nat"
  byCategory :: "string \<rightharpoonup> nat"

text \<open>
  \<^verbatim>\<open>Partial<Task>\<close> as the argument of \<^verbatim>\<open>updateTask\<close>: every key may be absent
  (\<open>None\<close>). For the optional members of \<^verbatim>\<open>Task\<close> a supplied key may carry the value
  \<^verbatim>\<open>undefined\<close> (\<open>Some None\<close>).
\<close>

record 'p TaskUpdates =
  upd_id :: "string option"
  upd_title :: "string option"
  upd_description :: "string option option"
  upd_priority :: "'p option"
  upd_status :: "Status option"
  upd_category :: "string option"
  upd_dueDate :: "Date option option"
  upd_createdAt :: "Date option"
  upd_updatedAt :: "Date option"
  upd_tags :: "string list option"
  upd_aiGenerated :: "bool option"
  upd_sourceDocument :: "string option option"

section \<open>Dates\<close>

text \<open>
  The relational operators on two \<^verbatim>\<open>Date\<close> objects compare their time values as numbers;
  every comparison with NaN is false.
\<close>

fun date_lt :: "Date \<Rightarrow> Date \<Rightarrow> bool" where
  "date_lt (TimeValue a) (TimeValue b) = (a < b)"
| "date_lt _ _ = False"

fun date_ge :: "Date \<Rightarrow> Date \<Rightarrow> bool" where
  "date_ge (TimeValue a) (TimeValue b) = (a \<ge> b)"
| "date_ge _ _ = False"

text \<open>\<^verbatim>\<open>getTime()\<close>: the time value, \<open>None\<close> for NaN.\<close>

fun getTime :: "Date \<Rightarrow> int option" where
  "getTime (TimeValue t) = Some t"
| "getTime InvalidDate = None"

definition msPerDay :: int where
  "msPerDay = 86400000"




section \<open>Stats/Filter/Sort engine (src/lib/task-utils.ts)\<close>

subsection \<open>sortTasks\<close>

definition priorityOrder :: "Priority \<Rightarrow> int" where
  "priorityOrder p = (case p of Urgent \<Rightarrow> 4 | High \<Rightarrow> 3 | Medium \<Rightarrow> 2 | Low \<Rightarrow> 1)"

definition statusOrder :: "Status \<Rightarrow> int" where
  "statusOrder s = (case s of Todo \<Rightarrow> 1 | InProgress \<Rightarrow> 2 | Completed \<Rightarrow> 3 | Cancelled \<Rightarrow> 4)"

text \<open>\<^verbatim>\<open>new Date('9999-12-31')\<close>: midnight UTC of that day.\<close>

definition farFuture :: Date where
  "farFuture = TimeValue 253402214400000"

text \<open>
  The difference of two \<^verbatim>\<open>getTime()\<close> results. It is NaN when either date is invalid;
  \<^verbatim>\<open>Array.prototype.sort\<close> reads a NaN from its comparator as \<open>+0\<close>, and the negation of
  NaN is NaN, so NaN is rendered as \<open>0\<close> here.
\<close>

definition timeDiff :: "Date \<Rightarrow> Date \<Rightarrow> int" where
  "timeDiff a b = (case (getTime a, getTime b) of (Some x, Some y) \<Rightarrow> x - y | _ \<Rightarrow> 0)"

text \<open>
  The comparator passed to \<^verbatim>\<open>sort\<close>. \<^verbatim>\<open>String.prototype.localeCompare\<close> depends on the
  host's locale and is the parameter \<open>localeCompare\<close>.
\<close>

definition compareTasks ::
  "(string \<Rightarrow> string \<Rightarrow> int) \<Rightarrow> SortOption \<Rightarrow> bool \<Rightarrow> Priority Task \<Rightarrow> Priority Task \<Rightarrow> int" where
  "compareTasks localeCompare sortBy ascending a b =
    (let comparison =
      (case sortBy of
         SortPriority \<Rightarrow> priorityOrder (priority a) - priorityOrder (priority b)
       | SortDueDate \<Rightarrow>
           (let aDate = (case dueDate a of Some d \<Rightarrow> d | None \<Rightarrow> farFuture);
                bDate = (case dueDate b of Some d \<Rightarrow> d | None \<Rightarrow> farFuture)
            in timeDiff aDate bDate)
       | SortCreatedAt \<Rightarrow> timeDiff (createdAt a) (createdAt b)
       | SortTitle \<Rightarrow> localeCompare (title a) (title b)
       | SortStatus \<Rightarrow> statusOrder (status a) - statusOrder (status b))
     in if ascending then comparison else - comparison)"

text \<open>
  \<^verbatim>\<open>Array.prototype.sort\<close> with a comparator is a stable sort (ECMAScript 2019): elements
  that compare equal keep their relative order. It is modelled by stable insertion:
  an element is placed in front of the first later element it does not compare greater
  than.
\<close>

fun insertBy :: "('a \<Rightarrow> 'a \<Rightarrow> int) \<Rightarrow> 'a \<Rightarrow> 'a list \<Rightarrow> 'a list" where
  "insertBy cmp x [] = [x]"
| "insertBy cmp x (y # ys) = (if cmp x y \<le> 0 then x # y # ys else y # insertBy cmp x ys)"

definition array_sort :: "('a \<Rightarrow> 'a \<Rightarrow> int) \<Rightarrow> 'a list \<Rightarrow> 'a list" where
  "array_sort cmp xs = foldr (insertBy cmp) xs []"

text \<open>
  \<^verbatim>\<open>sortTasks(tasks, sortBy, ascending = false)\<close>: the third argument is optional, \<open>None\<close>
  when the caller leaves it out. The input array is copied, never changed.
\<close>

definition sortTasks ::
  "(string \<Rightarrow> string \<Rightarrow> int) \<Rightarrow> Priority Task list \<Rightarrow> SortOption \<Rightarrow> bool option \<Rightarrow> Priority Task list" where
  "sortTasks localeCompare tasks sortBy asc =
    (let ascending = (case asc of None \<Rightarrow> False | Some b \<Rightarrow> b)
     in array_sort (compareTasks localeCompare sortBy ascending) tasks)"

subsection \<open>calculateTaskStats\<close>

definition initialStats :: "Priority Task list \<Rightarrow> TaskStats" where
  "initialStats tasks =
    \<lparr> total_n = length tasks, completed = 0, inProgress = 0, overdue = 0,
      byPriority = (\<lambda>p. 0), byCategory = Map.empty \<rparr>"

text \<open>
  The body of the \<^verbatim>\<open>forEach\<close> callback, on the statistics object it mutates. \<open>now\<close> is
  the time value of the \<^verbatim>\<open>new Date()\<close> taken before the loop. The category histogram is
  a map; a category that names a member of \<^verbatim>\<open>Object.prototype\<close> is not modelled.
\<close>

definition countTask :: "int \<Rightarrow> Priority Task \<Rightarrow> TaskStats \<Rightarrow> TaskStats" where
  "countTask now task stats =
    (let s1 = (if status task = Completed then stats\<lparr>completed := completed stats + 1\<rparr>
               else if status task = InProgress then stats\<lparr>inProgress := inProgress stats + 1\<rparr>
               else stats);
         s2 = (if (case dueDate task of None \<Rightarrow> False | Some d \<Rightarrow> date_lt d (TimeValue now))
                  \<and> status task \<noteq> Completed
               then s1\<lparr>overdue := overdue s1 + 1\<rparr> else s1);
         s3 = s2\<lparr>byPriority := (byPriority s2)(priority task := byPriority s2 (priority task) + 1)\<rparr>;
         c = (case byCategory s3 (category task) of None \<Rightarrow> 0 | Some n \<Rightarrow> n)
     in s3\<lparr>byCategory := (byCategory s3)(category task \<mapsto> c + 1)\<rparr>)"

definition calculateTaskStats :: "int \<Rightarrow> Priority Task list \<Rightarrow> TaskStats" where
  "calculateTaskStats now tasks = fold (countTask now) tasks (initialStats tasks)"

subsection \<open>getTasksDueToday, getOverdueTasks\<close>


definition getOverdueTasks :: "int \<Rightarrow> 'p Task list \<Rightarrow> 'p Task list" where
  "getOverdueTasks now tasks =
    filter (\<lambda>task.
      (case dueDate task of None \<Rightarrow> False | Some d \<Rightarrow> date_lt d (TimeValue now))
      \<and> status task \<noteq> Completed
      \<and> status task \<noteq> Cancelled) tasks"

subsection \<open>updateTask\<close>

text \<open>
  \<^verbatim>\<open>{ ...task, ...updates, updatedAt: new Date() }\<close>: each key of \<open>updates\<close> overrides the
  task's, and \<open>updatedAt\<close> is then set to the current time \<open>now\<close> whatever \<open>updates\<close> said.
\<close>

definition spread :: "'a \<Rightarrow> 'a option \<Rightarrow> 'a" where
  "spread old new = (case new of None \<Rightarrow> old | Some v \<Rightarrow> v)"

definition updateTask :: "int \<Rightarrow> 'p Task \<Rightarrow> 'p TaskUpdates \<Rightarrow> 'p Task" where
  "updateTask now task updates =
    \<lparr> task_id = spread (task_id task) (upd_id updates),
      title = spread (title task) (upd_title updates),
      description = spread (description task) (upd_description updates),
      priority = spread (priority task) (upd_priority updates),
      status = spread (status task) (upd_status updates),
      category = spread (category task) (upd_category updates),
      dueDate = spread (dueDate task) (upd_dueDate updates),
      createdAt = spread (createdAt task) (upd_createdAt updates),
      updatedAt = TimeValue now,
      tags = spread (tags task) (upd_tags updates),
      aiGenerated = spread (aiGenerated task) (upd_aiGenerated updates),
      sourceDocument = spread (sourceDocument task) (upd_sourceDocument updates) \<rparr>"

definition noUpdates :: "'p TaskUpdates" where
  "noUpdates =
    \<lparr> upd_id = None, upd_title = None, upd_description = None, upd_priority = None,
      upd_status = None, upd_category = None, upd_dueDate = None, upd_createdAt = None,
      upd_updatedAt = None, upd_tags = None, upd_aiGenerated = None,
      upd_sourceDocument = None \<rparr>"

definition completeTask :: "int \<Rightarrow> Priority Task \<Rightarrow> Priority Task" where
  "completeTask now task = updateTask now task (noUpdates\<lparr>upd_status := Some Completed\<rparr>)"

section \<open>Task store reconciler (src/app/api/tasks/ai-generate/route.ts,
  src/app/api/documents/extract-tasks/route.ts)\<close>

text \<open>
  One element of the array the AI client returns, as the prompt asks for it: every member
  optional, dates and priorities as plain strings (whatever the model wrote).
\<close>

record TaskData =
  td_title :: "string option"
  td_description :: "string option"
  td_priority :: "string option"
  td_category :: "string option"
  td_tags :: "string list option"
  td_dueDate :: "string option"

text \<open>\<^verbatim>\<open>v || d\<close> on an optional string: \<^verbatim>\<open>undefined\<close> and the empty string are falsy.\<close>

definition orElse :: "string option \<Rightarrow> string \<Rightarrow> string" where
  "orElse v d = (case v of None \<Rightarrow> d | Some s \<Rightarrow> if s = [] then d else s)"

text \<open>Decimal rendering of a number inside a template literal.\<close>

definition digitChar :: "nat \<Rightarrow> char" where
  "digitChar d = ''0123456789'' ! d"

fun showNat :: "nat \<Rightarrow> string" where
  "showNat n = (if n < 10 then [digitChar n] else showNat (n div 10) @ [digitChar (n mod 10)])"

declare showNat.simps [simp del]

definition showInt :: "int \<Rightarrow> string" where
  "showInt i = (if i < 0 then CHR ''-'' # showNat (nat (- i)) else showNat (nat i))"

text \<open>
  \<^verbatim>\<open>`task_${Date.now()}_${Math.random().toString(36).substr(2, 9)}`\<close>: \<open>ms\<close> is the clock
  reading, \<open>rnd\<close> the random suffix the host produced.
\<close>

definition newTaskId :: "int \<Rightarrow> string \<Rightarrow> string" where
  "newTaskId ms rnd = ''task_'' @ showInt ms @ ''_'' @ rnd"

text \<open>
  \<^verbatim>\<open>new Date(s)\<close> on a string never throws: it yields an Invalid Date when the string does
  not parse. \<^verbatim>\<open>Date.parse\<close> is host-defined outside the ISO format and is the parameter
  \<open>parseDate\<close> (\<open>None\<close> for NaN).
\<close>

definition newDate :: "(string \<Rightarrow> int option) \<Rightarrow> string \<Rightarrow> Date" where
  "newDate parseDate s = (case parseDate s of None \<Rightarrow> InvalidDate | Some t \<Rightarrow> TimeValue t)"

text \<open>
  \<^verbatim>\<open>...(taskData.dueDate && { dueDate: new Date(taskData.dueDate) })\<close>: the key is added
  when the string is present and not empty, whatever the constructor makes of it.
\<close>

definition dueDateSpread :: "(string \<Rightarrow> int option) \<Rightarrow> string option \<Rightarrow> Date option" where
  "dueDateSpread parseDate d =
    (case d of None \<Rightarrow> None
     | Some s \<Rightarrow> if s = [] then None else Some (newDate parseDate s))"

text \<open>
  What the host supplies while one element is processed: the time value of
  \<^verbatim>\<open>new Date()\<close>, the later reading \<^verbatim>\<open>Date.now()\<close>, and the random suffix.
\<close>

record Host =
  newDateNow :: int
  dateNow :: int
  random36 :: string

text \<open>The callback of \<^verbatim>\<open>generatedTasks.map\<close> in the ai-generate route.\<close>

definition generatedTask :: "(string \<Rightarrow> int option) \<Rightarrow> Host \<Rightarrow> TaskData \<Rightarrow> string Task" where
  "generatedTask parseDate host taskData =
    (let now = TimeValue (newDateNow host) in
     \<lparr> task_id = newTaskId (dateNow host) (random36 host),
       title = orElse (td_title taskData) ''Untitled Task'',
       description = Some (orElse (td_description taskData) []),
       priority = orElse (td_priority taskData) ''medium'',
       status = Todo,
       category = orElse (td_category taskData) ''general'',
       dueDate = dueDateSpread parseDate (td_dueDate taskData),
       createdAt = now,
       updatedAt = now,
       tags = (case td_tags taskData of None \<Rightarrow> [] | Some ts \<Rightarrow> ts),
       aiGenerated = True,
       sourceDocument = None \<rparr>)"

text \<open>The callback of \<^verbatim>\<open>extractedTasks.map\<close> in the extract-tasks route.\<close>

definition extractedTask ::
  "(string \<Rightarrow> int option) \<Rightarrow> string \<Rightarrow> Host \<Rightarrow> TaskData \<Rightarrow> string Task" where
  "extractedTask parseDate documentName host taskData =
    (let now = TimeValue (newDateNow host) in
     \<lparr> task_id = newTaskId (dateNow host) (random36 host),
       title = orElse (td_title taskData) ''Untitled Task'',
       description = Some (orElse (td_description taskData) []),
       priority = orElse (td_priority taskData) ''medium'',
       status = Todo,
       category = orElse (td_category taskData) ''general'',
       dueDate = dueDateSpread parseDate (td_dueDate taskData),
       createdAt = now,
       updatedAt = now,
       tags = (case td_tags taskData of None \<Rightarrow> [] | Some ts \<Rightarrow> ts),
       aiGenerated = True,
       sourceDocument = Some documentName \<rparr>)"

text \<open>
  \<^verbatim>\<open>generatedTasks.map(...)\<close>: the callback runs once per element, in order; \<open>host i\<close> is
  what the host supplies during the \<open>i\<close>-th run.
\<close>

definition processedTasks ::
  "(string \<Rightarrow> int option) \<Rightarrow> (nat \<Rightarrow> Host) \<Rightarrow> TaskData list \<Rightarrow> string Task list" where
  "processedTasks parseDate host generatedTasks =
    map (\<lambda>(i, taskData). generatedTask parseDate (host i) taskData) (enumerate 0 generatedTasks)"

definition validPriorities :: "string set" where
  "validPriorities = {''low'', ''medium'', ''high'', ''urgent''}"

subsection \<open>A date parser for the examples\<close>

text \<open>
  The date-only form \<^verbatim>\<open>YYYY-MM-DD\<close> of the ECMAScript date-time string format, read as
  midnight UTC; every other string is rejected. It stands for \<^verbatim>\<open>Date.parse\<close> where a
  concrete parser is needed.
\<close>

definition isDigit :: "char \<Rightarrow> bool" where
  "isDigit c = (48 \<le> (of_char c :: nat) \<and> (of_char c :: nat) \<le> 57)"

definition readNat :: "string \<Rightarrow> nat" where
  "readNat s = foldl (\<lambda>n c. 10 * n + ((of_char c :: nat) - 48)) 0 s"

definition daysInMonth :: "int \<Rightarrow> int \<Rightarrow> int" where
  "daysInMonth y m =
    (if m = 2 then (if y mod 4 = 0 \<and> (y mod 100 \<noteq> 0 \<or> y mod 400 = 0) then 29 else 28)
     else if m \<in> {4, 6, 9, 11} then 30 else 31)"

definition daysFromCivil :: "int \<Rightarrow> int \<Rightarrow> int \<Rightarrow> int" where
  "daysFromCivil y m d =
    (let y' = (if m \<le> 2 then y - 1 else y);
         era = y' div 400;
         yoe = y' - era * 400;
         doy = (153 * ((m + 9) mod 12) + 2) div 5 + d - 1;
         doe = yoe * 365 + yoe div 4 - yoe div 100 + doy
     in era * 146097 + doe - 719468)"

definition isoDateOnly :: "string \<Rightarrow> int option" where
  "isoDateOnly s =
    (if length s = 10 \<and> s ! 4 = CHR ''-'' \<and> s ! 7 = CHR ''-''
        \<and> list_all isDigit (take 4 s) \<and> list_all isDigit (take 2 (drop 5 s))
        \<and> list_all isDigit (drop 8 s)
     then (let y = int (readNat (take 4 s));
               m = int (readNat (take 2 (drop 5 s)));
               d = int (readNat (drop 8 s))
           in if 1 \<le> m \<and> m \<le> 12 \<and> 1 \<le> d \<and> d \<le> daysInMonth y m
              then Some (daysFromCivil y m d * msPerDay) else None)
     else None)"

section \<open>AI response normalizer (src/lib/ai-client.ts)\<close>

subsection \<open>JSON values\<close>

text \<open>
  What \<^verbatim>\<open>JSON.parse\<close> returns. An object is its list of members in insertion order, with
  distinct keys. Numbers are the integral ones.
\<close>

datatype json =
    JNull
  | JBool bool
  | JNum int
  | JStr string
  | JArr "json list"
  | JObj "(string \<times> json) list"


datatype error = SyntaxError | TypeError

text \<open>
  Reading a member \<^verbatim>\<open>parsed.k\<close>, for the keys the client reads (\<^verbatim>\<open>response\<close>,
  \<^verbatim>\<open>suggestions\<close>, \<^verbatim>\<open>generatedTasks\<close>, \<^verbatim>\<open>actions\<close>; none of them is inherited from a
  prototype): \<^verbatim>\<open>null\<close> throws a TypeError, an object yields the member or
  \<^verbatim>\<open>undefined\<close> (\<open>None\<close>), every other value yields \<^verbatim>\<open>undefined\<close>.
\<close>

fun getProp :: "json \<Rightarrow> string \<Rightarrow> error + json option" where
  "getProp JNull k = Inl TypeError"
| "getProp (JObj kvs) k = Inr (map_of kvs k)"
| "getProp v k = Inr None"

subsection \<open>The regular expressions\<close>

text \<open>
  \<^verbatim>\<open>response.match(/\{[\s\S]*\}/)\<close> and \<^verbatim>\<open>response.match(/\[[\s\S]*\]/)\<close>, for the opening
  character \<open>ob\<close> and the closing character \<open>cb\<close>. The match starts at the leftmost \<open>ob\<close>;
  \<^verbatim>\<open>[\s\S]*\<close> is greedy and matches any character, so the match runs to the last \<open>cb\<close>
  after that \<open>ob\<close>. When no \<open>cb\<close> follows the leftmost \<open>ob\<close>, none follows a later one
  either, and there is no match (\<^verbatim>\<open>null\<close>, here \<open>None\<close>). The result is \<^verbatim>\<open>jsonMatch[0]\<close>.
\<close>

definition regexMatch :: "char \<Rightarrow> char \<Rightarrow> string \<Rightarrow> string option" where
  "regexMatch ob cb s =
    (case dropWhile (\<lambda>c. c \<noteq> ob) s of
       [] \<Rightarrow> None
     | c # rest \<Rightarrow>
         if cb \<in> set rest
         then Some (c # rev (dropWhile (\<lambda>c. c \<noteq> cb) (rev rest)))
         else None)"



subsection \<open>parseAIResponse, parseDocumentAnalysis, parseTasksFromResponse\<close>

text \<open>
  \<^verbatim>\<open>ChatResponse\<close> as it exists at run time: the members hold whatever JSON values the
  model wrote (\<open>None\<close> for \<^verbatim>\<open>undefined\<close> or an absent key).
\<close>

record ChatResponse =
  response :: json
  suggestions :: "json option"
  generatedTasks :: "json option"
  actions :: "json option"





definition parseDocumentAnalysis_try ::
  "(string \<Rightarrow> json option) \<Rightarrow> string \<Rightarrow> error + json option" where
  "parseDocumentAnalysis_try jsonParse rsp =
    (case regexMatch CHR ''{'' CHR ''}'' rsp of
       None \<Rightarrow> Inr None
     | Some jsonMatch \<Rightarrow>
        (case jsonParse jsonMatch of None \<Rightarrow> Inl SyntaxError | Some parsed \<Rightarrow> Inr (Some parsed)))"

definition analysisFallback :: "string \<Rightarrow> json" where
  "analysisFallback rsp =
    JObj [(''summary'', JStr rsp), (''insights'', JArr []), (''extractedTasks'', JArr []),
          (''keyTopics'', JArr []), (''actionItems'', JArr [])]"

definition parseDocumentAnalysis :: "(string \<Rightarrow> json option) \<Rightarrow> string \<Rightarrow> error + json" where
  "parseDocumentAnalysis jsonParse rsp =
    (case parseDocumentAnalysis_try jsonParse rsp of
       Inr (Some parsed) \<Rightarrow> Inr parsed
     | Inr None \<Rightarrow> Inr (analysisFallback rsp)
     | Inl e \<Rightarrow> Inr (analysisFallback rsp))"



subsection \<open>A JSON parser for the examples\<close>

text \<open>
  A parser for the JSON texts made of objects, arrays, strings without escape sequences,
  integers and the three literals, with white space between tokens. It stands for
  \<^verbatim>\<open>JSON.parse\<close> where a concrete parser is needed; on such texts it returns what
  \<^verbatim>\<open>JSON.parse\<close> returns, and \<open>None\<close> where \<^verbatim>\<open>JSON.parse\<close> throws. The first argument
  of the three mutually recursive functions bounds the number of nested calls.
\<close>

definition skipWs :: "string \<Rightarrow> string" where
  "skipWs s = dropWhile (\<lambda>c. (of_char c :: nat) \<in> {9, 10, 13, 32}) s"

fun scanString :: "string \<Rightarrow> string \<Rightarrow> (string \<times> string) option" where
  "scanString acc [] = None"
| "scanString acc (c # cs) =
    (if c = CHR 0x22 then Some (rev acc, cs)
     else if c = CHR 0x5C \<or> (of_char c :: nat) < 32 then None
     else scanString (c # acc) cs)"

definition scanNumber :: "string \<Rightarrow> (json \<times> string) option" where
  "scanNumber s =
    (let neg = (s \<noteq> [] \<and> hd s = CHR ''-'');
         r = (if neg then tl s else s);
         ds = takeWhile isDigit r;
         rest = dropWhile isDigit r
     in if ds = [] \<or> (length ds > 1 \<and> hd ds = CHR ''0'')
           \<or> (rest \<noteq> [] \<and> hd rest \<in> {CHR ''.'', CHR ''e'', CHR ''E''})
        then None
        else Some (JNum (if neg then - int (readNat ds) else int (readNat ds)), rest))"

definition literal :: "string \<Rightarrow> json \<Rightarrow> string \<Rightarrow> (json \<times> string) option" where
  "literal w v s = (if take (length w) s = w then Some (v, drop (length w) s) else None)"

fun parseValue :: "nat \<Rightarrow> string \<Rightarrow> (json \<times> string) option"
  and parseElements :: "nat \<Rightarrow> json list \<Rightarrow> string \<Rightarrow> (json \<times> string) option"
  and parseMembers :: "nat \<Rightarrow> (string \<times> json) list \<Rightarrow> string \<Rightarrow> (json \<times> string) option"
where
  "parseValue 0 s = None"
| "parseValue (Suc n) s =
    (case skipWs s of
       [] \<Rightarrow> None
     | c # cs \<Rightarrow>
        if c = CHR ''{'' then
          (case skipWs cs of
             [] \<Rightarrow> None
           | d # ds \<Rightarrow> if d = CHR ''}'' then Some (JObj [], ds) else parseMembers n [] cs)
        else if c = CHR ''['' then
          (case skipWs cs of
             [] \<Rightarrow> None
           | d # ds \<Rightarrow> if d = CHR '']'' then Some (JArr [], ds) else parseElements n [] cs)
        else if c = CHR 0x22 then
          (case scanString [] cs of None \<Rightarrow> None | Some (str, r) \<Rightarrow> Some (JStr str, r))
        else if c = CHR ''t'' then literal ''true'' (JBool True) (c # cs)
        else if c = CHR ''f'' then literal ''false'' (JBool False) (c # cs)
        else if c = CHR ''n'' then literal ''null'' JNull (c # cs)
        else scanNumber (c # cs))"
| "parseElements 0 acc s = None"
| "parseElements (Suc n) acc s =
    (case parseValue n s of
       None \<Rightarrow> None
     | Some (v, r) \<Rightarrow>
        (case skipWs r of
           [] \<Rightarrow> None
         | c # cs \<Rightarrow>
            if c = CHR '','' then parseElements n (acc @ [v]) cs
            else if c = CHR '']'' then Some (JArr (acc @ [v]), cs)
            else None))"
| "parseMembers 0 acc s = None"
| "parseMembers (Suc n) acc s =
    (case skipWs s of
       [] \<Rightarrow> None
     | q # s1 \<Rightarrow>
        if q \<noteq> CHR 0x22 then None
        else
          (case scanString [] s1 of
             None \<Rightarrow> None
           | Some (k, s2) \<Rightarrow>
              (case skipWs s2 of
                 [] \<Rightarrow> None
               | colon # s3 \<Rightarrow>
                  if colon \<noteq> CHR '':'' then None
                  else
                    (case parseValue n s3 of
                       None \<Rightarrow> None
                     | Some (v, s4) \<Rightarrow>
                        (case skipWs s4 of
                           [] \<Rightarrow> None
                         | c # cs \<Rightarrow>
                            if c = CHR '','' then parseMembers n (AList.update k v acc) cs
                            else if c = CHR ''}'' then Some (JObj (AList.update k v acc), cs)
                            else None)))))"

definition JSON_parse :: "string \<Rightarrow> json option" where
  "JSON_parse s =
    (case parseValue (2 * length s + 2) s of
       None \<Rightarrow> None
     | Some (v, r) \<Rightarrow> if skipWs r = [] then Some v else None)"

section \<open>Sample data\<close>

definition sampleTask :: "Priority Task" where
  "sampleTask =
    \<lparr> task_id = ''task_1705276800000_k3j9x0a1z'', title = ''Write report'',
      description = Some ''Quarterly numbers'', priority = High, status = Todo,
      category = ''work'', dueDate = Some (TimeValue 1705363200000),
      createdAt = TimeValue 1705276800000, updatedAt = TimeValue 1705276800000,
      tags = [''q1''], aiGenerated = False, sourceDocument = None \<rparr>"

definition sampleHost :: Host where
  "sampleHost = \<lparr> newDateNow = 1705276800000, dateNow = 1705276800001, random36 = ''k3j9x0a1z'' \<rparr>"

definition noTaskData :: TaskData where
  "noTaskData =
    \<lparr> td_title = None, td_description = None, td_priority = None, td_category = None,
      td_tags = None, td_dueDate = None \<rparr>"

section \<open>Constants\<close>

lemma farFuture_parsed: "newDate isoDateOnly ''9999-12-31'' = farFuture"
  by (simp add: newDate_def isoDateOnly_def isDigit_def readNat_def daysInMonth_def
      daysFromCivil_def msPerDay_def farFuture_def)

section \<open>The overdue counter and the overdue list\<close>

lemma overdue_fold_countTask:
  "overdue (fold (countTask now) tasks stats) =
     overdue stats + length (filter (\<lambda>task.
        (case dueDate task of None \<Rightarrow> False | Some d \<Rightarrow> date_lt d (TimeValue now))
        \<and> status task \<noteq> Completed) tasks)"
  by (induction tasks arbitrary: stats) (simp_all add: countTask_def Let_def)

lemma calculateTaskStats_overdue:
  "overdue (calculateTaskStats now tasks) =
     length (filter (\<lambda>task.
        (case dueDate task of None \<Rightarrow> False | Some d \<Rightarrow> date_lt d (TimeValue now))
        \<and> status task \<noteq> Completed) tasks)"
  by (simp add: calculateTaskStats_def overdue_fold_countTask initialStats_def)

text \<open>
  The counter exceeds the length of the list by the number of cancelled tasks whose due
  date has passed: \<^verbatim>\<open>calculateTaskStats\<close> tests only \<^verbatim>\<open>status !== 'completed'\<close>, while
  \<^verbatim>\<open>getOverdueTasks\<close> also tests \<^verbatim>\<open>status !== 'cancelled'\<close>.
\<close>

lemma overdue_count_splits:
  "overdue (calculateTaskStats now tasks) =
     length (getOverdueTasks now tasks)
     + length (filter (\<lambda>task.
        (case dueDate task of None \<Rightarrow> False | Some d \<Rightarrow> date_lt d (TimeValue now))
        \<and> status task = Cancelled) tasks)"
  unfolding calculateTaskStats_overdue getOverdueTasks_def
  by (induction tasks) auto

text \<open>
  Claim C1 says that the overdue count of \<^verbatim>\<open>calculateTaskStats\<close> equals the length of
  \<^verbatim>\<open>getOverdueTasks\<close> at the same current time. On the one-element collection holding a
  cancelled task whose due date has passed, the counter is 1 and the list is empty.
\<close>

theorem cancelled_task_counted_overdue:
  "overdue (calculateTaskStats 1705449600000 [sampleTask\<lparr>status := Cancelled\<rparr>]) = 1
   \<and> getOverdueTasks 1705449600000 [sampleTask\<lparr>status := Cancelled\<rparr>] = []"
  by (simp add: calculateTaskStats_def countTask_def initialStats_def getOverdueTasks_def
      sampleTask_def)

section \<open>updateTask\<close>

text \<open>
  Claim C6 says that \<^verbatim>\<open>updateTask\<close> never changes \<^verbatim>\<open>id\<close> or \<^verbatim>\<open>createdAt\<close>. A change set
  that supplies the keys \<^verbatim>\<open>id\<close> and \<^verbatim>\<open>createdAt\<close> overwrites both.
\<close>

theorem updateTask_overwrites_id_createdAt:
  "task_id (updateTask 1705449600000 sampleTask
      (noUpdates\<lparr>upd_id := Some ''task_2'', upd_createdAt := Some (TimeValue 5)\<rparr>)) = ''task_2''
   \<and> task_id sampleTask \<noteq> ''task_2''
   \<and> createdAt (updateTask 1705449600000 sampleTask
      (noUpdates\<lparr>upd_id := Some ''task_2'', upd_createdAt := Some (TimeValue 5)\<rparr>)) = TimeValue 5
   \<and> createdAt sampleTask \<noteq> TimeValue 5"
  by (simp add: updateTask_def noUpdates_def spread_def sampleTask_def)

text \<open>
  Claim C6, amended: \<^verbatim>\<open>updateTask\<close> leaves \<^verbatim>\<open>id\<close> unchanged when the change set has no
  key \<^verbatim>\<open>id\<close> and \<^verbatim>\<open>createdAt\<close> unchanged when it has no key \<^verbatim>\<open>createdAt\<close>; a supplied
  key overwrites the member. \<^verbatim>\<open>updatedAt\<close> becomes the current time, whatever the change
  set says, which is at or after the previous \<^verbatim>\<open>updatedAt\<close> whenever that one is not
  later than the current time.
\<close>

theorem updateTask_id_createdAt_updatedAt:
  "(upd_id updates = None \<longrightarrow> task_id (updateTask now task updates) = task_id task)
   \<and> (upd_createdAt updates = None \<longrightarrow> createdAt (updateTask now task updates) = createdAt task)
   \<and> (\<forall>v. upd_id updates = Some v \<longrightarrow> task_id (updateTask now task updates) = v)
   \<and> (\<forall>v. upd_createdAt updates = Some v \<longrightarrow> createdAt (updateTask now task updates) = v)
   \<and> updatedAt (updateTask now task updates) = TimeValue now
   \<and> (\<forall>prev. updatedAt task = TimeValue prev \<and> prev \<le> now \<longrightarrow>
         date_ge (updatedAt (updateTask now task updates)) (updatedAt task))"
  by (simp add: updateTask_def spread_def)

theorem updateTask_id_createdAt_updatedAt_witness:
  "task_id (updateTask 1705449600000 sampleTask (noUpdates\<lparr>upd_status := Some Completed\<rparr>))
     = ''task_1705276800000_k3j9x0a1z''
   \<and> createdAt (updateTask 1705449600000 sampleTask (noUpdates\<lparr>upd_status := Some Completed\<rparr>))
     = TimeValue 1705276800000
   \<and> updatedAt (updateTask 1705449600000 sampleTask (noUpdates\<lparr>upd_status := Some Completed\<rparr>))
     = TimeValue 1705449600000
   \<and> date_ge (updatedAt (updateTask 1705449600000 sampleTask (noUpdates\<lparr>upd_status := Some Completed\<rparr>)))
        (updatedAt sampleTask)
   \<and> task_id (updateTask 1705449600000 sampleTask
        (noUpdates\<lparr>upd_id := Some ''task_2'', upd_createdAt := Some (TimeValue 5)\<rparr>)) = ''task_2''
   \<and> createdAt (updateTask 1705449600000 sampleTask
        (noUpdates\<lparr>upd_id := Some ''task_2'', upd_createdAt := Some (TimeValue 5)\<rparr>)) = TimeValue 5"
proof -
  have kept:
    "task_id (updateTask 1705449600000 sampleTask (noUpdates\<lparr>upd_status := Some Completed\<rparr>))
       = ''task_1705276800000_k3j9x0a1z''
     \<and> createdAt (updateTask 1705449600000 sampleTask (noUpdates\<lparr>upd_status := Some Completed\<rparr>))
       = TimeValue 1705276800000
     \<and> updatedAt (updateTask 1705449600000 sampleTask (noUpdates\<lparr>upd_status := Some Completed\<rparr>))
       = TimeValue 1705449600000
     \<and> date_ge (updatedAt (updateTask 1705449600000 sampleTask (noUpdates\<lparr>upd_status := Some Completed\<rparr>)))
          (updatedAt sampleTask)"
    using updateTask_id_createdAt_updatedAt
      [of "noUpdates\<lparr>upd_status := Some Completed\<rparr>" 1705449600000 sampleTask]
    by (simp add: noUpdates_def sampleTask_def)
  have overwritten:
    "task_id (updateTask 1705449600000 sampleTask
        (noUpdates\<lparr>upd_id := Some ''task_2'', upd_createdAt := Some (TimeValue 5)\<rparr>)) = ''task_2''
     \<and> createdAt (updateTask 1705449600000 sampleTask
        (noUpdates\<lparr>upd_id := Some ''task_2'', upd_createdAt := Some (TimeValue 5)\<rparr>)) = TimeValue 5"
    using updateTask_id_createdAt_updatedAt
      [of "noUpdates\<lparr>upd_id := Some ''task_2'', upd_createdAt := Some (TimeValue 5)\<rparr>"
        1705449600000 sampleTask]
    by (simp add: noUpdates_def)
  from kept overwritten show ?thesis
    by blast
qed

text \<open>
  Claim C10: every member of the task returned by \<^verbatim>\<open>updateTask\<close> whose key the change
  set does not supply, \<^verbatim>\<open>updatedAt\<close> apart, equals the member of the input task.
\<close>

theorem updateTask_frame:
  "(upd_id updates = None \<longrightarrow> task_id (updateTask now task updates) = task_id task)
   \<and> (upd_title updates = None \<longrightarrow> title (updateTask now task updates) = title task)
   \<and> (upd_description updates = None \<longrightarrow>
        description (updateTask now task updates) = description task)
   \<and> (upd_priority updates = None \<longrightarrow> priority (updateTask now task updates) = priority task)
   \<and> (upd_status updates = None \<longrightarrow> status (updateTask now task updates) = status task)
   \<and> (upd_category updates = None \<longrightarrow> category (updateTask now task updates) = category task)
   \<and> (upd_dueDate updates = None \<longrightarrow> dueDate (updateTask now task updates) = dueDate task)
   \<and> (upd_createdAt updates = None \<longrightarrow> createdAt (updateTask now task updates) = createdAt task)
   \<and> (upd_tags updates = None \<longrightarrow> tags (updateTask now task updates) = tags task)
   \<and> (upd_aiGenerated updates = None \<longrightarrow>
        aiGenerated (updateTask now task updates) = aiGenerated task)
   \<and> (upd_sourceDocument updates = None \<longrightarrow>
        sourceDocument (updateTask now task updates) = sourceDocument task)"
  by (simp add: updateTask_def spread_def)

theorem updateTask_frame_witness:
  "task_id (updateTask 1705449600000 sampleTask (noUpdates\<lparr>upd_title := Some ''Write the report''\<rparr>))
     = task_id sampleTask
   \<and> description (updateTask 1705449600000 sampleTask (noUpdates\<lparr>upd_title := Some ''Write the report''\<rparr>))
     = description sampleTask
   \<and> priority (updateTask 1705449600000 sampleTask (noUpdates\<lparr>upd_title := Some ''Write the report''\<rparr>))
     = priority sampleTask
   \<and> status (updateTask 1705449600000 sampleTask (noUpdates\<lparr>upd_title := Some ''Write the report''\<rparr>))
     = status sampleTask
   \<and> category (updateTask 1705449600000 sampleTask (noUpdates\<lparr>upd_title := Some ''Write the report''\<rparr>))
     = category sampleTask
   \<and> dueDate (updateTask 1705449600000 sampleTask (noUpdates\<lparr>upd_title := Some ''Write the report''\<rparr>))
     = dueDate sampleTask
   \<and> createdAt (updateTask 1705449600000 sampleTask (noUpdates\<lparr>upd_title := Some ''Write the report''\<rparr>))
     = createdAt sampleTask
   \<and> tags (updateTask 1705449600000 sampleTask (noUpdates\<lparr>upd_title := Some ''Write the report''\<rparr>))
     = tags sampleTask
   \<and> aiGenerated (updateTask 1705449600000 sampleTask (noUpdates\<lparr>upd_title := Some ''Write the report''\<rparr>))
     = aiGenerated sampleTask
   \<and> sourceDocument (updateTask 1705449600000 sampleTask (noUpdates\<lparr>upd_title := Some ''Write the report''\<rparr>))
     = sourceDocument sampleTask
   \<and> title (updateTask 1705449600000 sampleTask (noUpdates\<lparr>upd_status := Some Completed\<rparr>))
     = title sampleTask"
proof -
  have others:
    "task_id (updateTask 1705449600000 sampleTask (noUpdates\<lparr>upd_title := Some ''Write the report''\<rparr>))
       = task_id sampleTask
     \<and> description (updateTask 1705449600000 sampleTask (noUpdates\<lparr>upd_title := Some ''Write the report''\<rparr>))
       = description sampleTask
     \<and> priority (updateTask 1705449600000 sampleTask (noUpdates\<lparr>upd_title := Some ''Write the report''\<rparr>))
       = priority sampleTask
     \<and> status (updateTask 1705449600000 sampleTask (noUpdates\<lparr>upd_title := Some ''Write the report''\<rparr>))
       = status sampleTask
     \<and> category (updateTask 1705449600000 sampleTask (noUpdates\<lparr>upd_title := Some ''Write the report''\<rparr>))
       = category sampleTask
     \<and> dueDate (updateTask 1705449600000 sampleTask (noUpdates\<lparr>upd_title := Some ''Write the report''\<rparr>))
       = dueDate sampleTask
     \<and> createdAt (updateTask 1705449600000 sampleTask (noUpdates\<lparr>upd_title := Some ''Write the report''\<rparr>))
       = createdAt sampleTask
     \<and> tags (updateTask 1705449600000 sampleTask (noUpdates\<lparr>upd_title := Some ''Write the report''\<rparr>))
       = tags sampleTask
     \<and> aiGenerated (updateTask 1705449600000 sampleTask (noUpdates\<lparr>upd_title := Some ''Write the report''\<rparr>))
       = aiGenerated sampleTask
     \<and> sourceDocument (updateTask 1705449600000 sampleTask (noUpdates\<lparr>upd_title := Some ''Write the report''\<rparr>))
       = sourceDocument sampleTask"
    using updateTask_frame
      [of "noUpdates\<lparr>upd_title := Some ''Write the report''\<rparr>" 1705449600000 sampleTask]
    by (simp add: noUpdates_def)
  have title_kept:
    "title (updateTask 1705449600000 sampleTask (noUpdates\<lparr>upd_status := Some Completed\<rparr>))
       = title sampleTask"
    using updateTask_frame
      [of "noUpdates\<lparr>upd_status := Some Completed\<rparr>" 1705449600000 sampleTask]
    by (simp add: noUpdates_def)
  from others title_kept show ?thesis
    by blast
qed

section \<open>sortTasks by priority\<close>

lemma insertBy_insort_key:
  assumes "\<And>x y. cmp x y \<le> 0 \<longleftrightarrow> key x \<le> (key y :: int)"
  shows "insertBy cmp x xs = insort_key key x xs"
  by (induction xs) (simp_all add: assms)

lemma array_sort_sort_key:
  assumes "\<And>x y. cmp x y \<le> 0 \<longleftrightarrow> key x \<le> (key y :: int)"
  shows "array_sort cmp xs = sort_key key xs"
proof -
  have "insertBy cmp = insort_key key"
    using insertBy_insort_key [of cmp key, OF assms] by (intro ext)
  then show ?thesis
    by (simp add: array_sort_def sort_key_def)
qed

lemma compareTasks_priority_desc:
  "compareTasks lc SortPriority False a b \<le> 0
     \<longleftrightarrow> - priorityOrder (priority a) \<le> - priorityOrder (priority b)"
  by (simp add: compareTasks_def)

lemma sortTasks_priority_desc:
  "sortTasks lc tasks SortPriority None = sort_key (\<lambda>t. - priorityOrder (priority t)) tasks"
  unfolding sortTasks_def
  using array_sort_sort_key [of "compareTasks lc SortPriority False"
      "\<lambda>t. - priorityOrder (priority t)" tasks]
  by (simp add: compareTasks_priority_desc)

lemma sortTasks_priority_asc:
  "sortTasks lc tasks SortPriority (Some True) = sort_key (\<lambda>t. priorityOrder (priority t)) tasks"
  unfolding sortTasks_def
  using array_sort_sort_key [of "compareTasks lc SortPriority True"
      "\<lambda>t. priorityOrder (priority t)" tasks]
  by (simp add: compareTasks_def)

text \<open>
  Claim C8: \<^verbatim>\<open>sortTasks(tasks, 'priority')\<close>, in the default direction (the one of
  \<^verbatim>\<open>ascending = false\<close>), returns a rearrangement of the tasks in which the priority rank
  never increases, and is stable: the tasks of each rank keep the order they had in the
  input. The ranks are urgent 4, high 3, medium 2, low 1. Only an explicit
  \<^verbatim>\<open>ascending = true\<close> gives the other direction.
\<close>

theorem sortTasks_priority_default:
  "mset (sortTasks lc tasks SortPriority None) = mset tasks
   \<and> sorted_wrt (\<lambda>a b. priorityOrder (priority a) \<ge> priorityOrder (priority b))
        (sortTasks lc tasks SortPriority None)
   \<and> (\<forall>k. filter (\<lambda>t. priorityOrder (priority t) = k) (sortTasks lc tasks SortPriority None)
          = filter (\<lambda>t. priorityOrder (priority t) = k) tasks)
   \<and> sortTasks lc tasks SortPriority (Some False) = sortTasks lc tasks SortPriority None
   \<and> sorted_wrt (\<lambda>a b. priorityOrder (priority a) \<le> priorityOrder (priority b))
        (sortTasks lc tasks SortPriority (Some True))
   \<and> priorityOrder Urgent = 4 \<and> priorityOrder High = 3
   \<and> priorityOrder Medium = 2 \<and> priorityOrder Low = 1"
proof -
  let ?key = "\<lambda>t. - priorityOrder (priority t)"
  have perm: "mset (sort_key ?key tasks) = mset tasks"
    by simp
  have "sorted (map ?key (sort_key ?key tasks))"
    by (rule sorted_sort_key)
  then have desc: "sorted_wrt (\<lambda>a b. priorityOrder (priority a) \<ge> priorityOrder (priority b))
      (sort_key ?key tasks)"
    by (simp add: sorted_map)
  have stable: "filter (\<lambda>t. priorityOrder (priority t) = k) (sort_key ?key tasks)
      = filter (\<lambda>t. priorityOrder (priority t) = k) tasks" for k
    using sort_key_stable [of ?key "- k" tasks] by simp
  have dflt: "sortTasks lc tasks SortPriority (Some False) = sortTasks lc tasks SortPriority None"
    by (simp add: sortTasks_def)
  have "sorted (map (\<lambda>t. priorityOrder (priority t))
      (sort_key (\<lambda>t. priorityOrder (priority t)) tasks))"
    by (rule sorted_sort_key)
  then have asc: "sorted_wrt (\<lambda>a b. priorityOrder (priority a) \<le> priorityOrder (priority b))
      (sortTasks lc tasks SortPriority (Some True))"
    by (simp add: sorted_map sortTasks_priority_asc)
  show ?thesis
    using perm desc stable dflt asc
    by (simp add: sortTasks_priority_desc priorityOrder_def)
qed

theorem sortTasks_priority_default_witness:
  "sortTasks (\<lambda>a b. 0)
      [sampleTask\<lparr>task_id := ''a'', priority := Low\<rparr>,
       sampleTask\<lparr>task_id := ''b'', priority := Urgent\<rparr>,
       sampleTask\<lparr>task_id := ''c'', priority := Low\<rparr>,
       sampleTask\<lparr>task_id := ''d'', priority := High\<rparr>,
       sampleTask\<lparr>task_id := ''e'', priority := Urgent\<rparr>] SortPriority None
     = [sampleTask\<lparr>task_id := ''b'', priority := Urgent\<rparr>,
        sampleTask\<lparr>task_id := ''e'', priority := Urgent\<rparr>,
        sampleTask\<lparr>task_id := ''d'', priority := High\<rparr>,
        sampleTask\<lparr>task_id := ''a'', priority := Low\<rparr>,
        sampleTask\<lparr>task_id := ''c'', priority := Low\<rparr>]"
  using sortTasks_priority_default [of "\<lambda>a b. 0"
      "[sampleTask\<lparr>task_id := ''a'', priority := Low\<rparr>,
        sampleTask\<lparr>task_id := ''b'', priority := Urgent\<rparr>,
        sampleTask\<lparr>task_id := ''c'', priority := Low\<rparr>,
        sampleTask\<lparr>task_id := ''d'', priority := High\<rparr>,
        sampleTask\<lparr>task_id := ''e'', priority := Urgent\<rparr>]"]
  by (simp add: sortTasks_def array_sort_def compareTasks_def priorityOrder_def)

section \<open>getTasksDueToday\<close>









section \<open>Task ids\<close>

lemma of_char_digitChar: "d < 10 \<Longrightarrow> (of_char (digitChar d) :: nat) = 48 + d"
proof -
  assume "d < 10"
  then have "d \<in> {0, 1, 2, 3, 4, 5, 6, 7, 8, 9}"
    by auto
  then show ?thesis
    by (auto simp: digitChar_def)
qed

lemma isDigit_digitChar: "d < 10 \<Longrightarrow> isDigit (digitChar d)"
  by (simp add: isDigit_def of_char_digitChar)

lemma showNat_isDigit: "c \<in> set (showNat n) \<Longrightarrow> isDigit c"
proof (induction n arbitrary: c rule: showNat.induct)
  case (1 n)
  show ?case
  proof (cases "n < 10")
    case True
    with "1.prems" show ?thesis
      by (subst (asm) showNat.simps) (simp add: isDigit_digitChar)
  next
    case False
    with "1.prems" have "c \<in> set (showNat (n div 10)) \<or> c = digitChar (n mod 10)"
      by (subst (asm) showNat.simps) auto
    with "1.IH" [OF False] show ?thesis
      by (auto simp: isDigit_digitChar)
  qed
qed

lemma readNat_snoc: "readNat (xs @ [c]) = 10 * readNat xs + ((of_char c :: nat) - 48)"
  by (simp add: readNat_def)

lemma readNat_showNat: "readNat (showNat n) = n"
proof (induction n rule: showNat.induct)
  case (1 n)
  show ?case
  proof (cases "n < 10")
    case True
    then show ?thesis
      by (subst showNat.simps) (simp add: readNat_def of_char_digitChar)
  next
    case False
    have "readNat (showNat n) = readNat (showNat (n div 10) @ [digitChar (n mod 10)])"
      using False by (subst showNat.simps) simp
    also have "\<dots> = 10 * (n div 10) + n mod 10"
      using "1.IH" [OF False] by (simp add: readNat_snoc of_char_digitChar)
    finally show ?thesis
      by simp
  qed
qed

lemma showNat_inject: "showNat m = showNat n \<longleftrightarrow> m = n"
  by (metis readNat_showNat)

lemma showNat_nonempty: "showNat n \<noteq> []"
  by (subst showNat.simps) simp

lemma hd_showNat_isDigit: "isDigit (hd (showNat n))"
  using showNat_isDigit [of "hd (showNat n)" n] showNat_nonempty [of n] by simp

lemma minus_not_digit: "\<not> isDigit CHR ''-''"
  by (simp add: isDigit_def)

lemma underscore_not_digit: "\<not> isDigit CHR ''_''"
  by (simp add: isDigit_def)

lemma minus_showNat_neq: "CHR ''-'' # xs \<noteq> showNat n"
proof
  assume "CHR ''-'' # xs = showNat n"
  then have "hd (showNat n) = CHR ''-''"
    by (metis list.sel(1))
  with hd_showNat_isDigit [of n] minus_not_digit show False
    by simp
qed

lemma showInt_inject: "showInt i = showInt j \<longleftrightarrow> i = j"
proof
  assume eq: "showInt i = showInt j"
  consider "i < 0" "j < 0" | "i < 0" "\<not> j < 0" | "\<not> i < 0" "j < 0" | "\<not> i < 0" "\<not> j < 0"
    by blast
  then show "i = j"
  proof cases
    case 1
    with eq have "nat (- i) = nat (- j)"
      by (simp add: showInt_def showNat_inject)
    with 1 show ?thesis by simp
  next
    case 2
    with eq minus_showNat_neq [of "showNat (nat (- i))" "nat j"] show ?thesis
      by (simp add: showInt_def)
  next
    case 3
    with eq minus_showNat_neq [of "showNat (nat (- j))" "nat i"] show ?thesis
      by (simp add: showInt_def)
  next
    case 4
    with eq have "nat i = nat j"
      by (simp add: showInt_def showNat_inject)
    with 4 show ?thesis by simp
  qed
qed simp

lemma underscore_notin_showInt: "CHR ''_'' \<notin> set (showInt i)"
  using showNat_isDigit [of "CHR ''_''"] underscore_not_digit
  by (auto simp: showInt_def)

lemma takeWhile_showInt:
  "takeWhile (\<lambda>c. c \<noteq> CHR ''_'') (showInt i @ CHR ''_'' # r) = showInt i"
proof -
  have "takeWhile (\<lambda>c. c \<noteq> CHR ''_'') (showInt i @ CHR ''_'' # r)
          = takeWhile (\<lambda>c. c \<noteq> CHR ''_'') (showInt i)"
    by (rule takeWhile_tail) simp
  also have "\<dots> = showInt i"
    using underscore_notin_showInt [of i] by (simp add: takeWhile_eq_all_conv) metis
  finally show ?thesis .
qed

lemma newTaskId_inject: "newTaskId ms rnd = newTaskId ms' rnd' \<longleftrightarrow> ms = ms' \<and> rnd = rnd'"
proof
  assume "newTaskId ms rnd = newTaskId ms' rnd'"
  then have eq: "showInt ms @ CHR ''_'' # rnd = showInt ms' @ CHR ''_'' # rnd'"
    by (simp add: newTaskId_def)
  then have "takeWhile (\<lambda>c. c \<noteq> CHR ''_'') (showInt ms @ CHR ''_'' # rnd)
      = takeWhile (\<lambda>c. c \<noteq> CHR ''_'') (showInt ms' @ CHR ''_'' # rnd')"
    by simp
  then have s: "showInt ms = showInt ms'"
    by (simp only: takeWhile_showInt)
  with eq have "rnd = rnd'"
    by simp
  with s show "ms = ms' \<and> rnd = rnd'"
    by (simp add: showInt_inject)
qed simp

section \<open>The reconciler's defaults\<close>

lemma processedTasks_nth:
  "length (processedTasks parseDate hostAt tds) = length tds
   \<and> (\<forall>i < length tds.
         processedTasks parseDate hostAt tds ! i = generatedTask parseDate (hostAt i) (tds ! i))"
  by (simp add: processedTasks_def nth_enumerate_eq)

text \<open>
  Claim C2 says that the reconciler defaults the priority to "medium" when it is not one
  of the four valid values, so that the resulting priority is always valid. A record whose
  priority is the string "critical" keeps it.
\<close>

theorem generatedTask_keeps_unknown_priority:
  "priority (generatedTask isoDateOnly sampleHost
      (noTaskData\<lparr>td_title := Some ''Buy milk'', td_priority := Some ''critical''\<rparr>)) = ''critical''
   \<and> ''critical'' \<notin> validPriorities"
  by (simp add: generatedTask_def Let_def noTaskData_def orElse_def validPriorities_def)

text \<open>
  Claim C2, amended: for every input record the reconciler produces a task whose id is
  \<^verbatim>\<open>task_\<close>, the clock reading, \<^verbatim>\<open>_\<close> and the random suffix (so two ids are equal exactly
  when both the clock reading and the suffix are); whose title is the given one, or
  "Untitled Task" when it is absent or empty; whose priority is the given string, or
  "medium" when it is absent or empty (so the result is one of the four valid values
  exactly when the given string is absent, empty or valid); whose category defaults to
  "general" and whose tags default to the empty list in the same way; whose status is
  todo; whose aiGenerated flag is set; and whose createdAt and updatedAt are both the
  current time. A one-element input yields a one-element output.
\<close>

theorem generatedTask_defaults:
  "task_id (generatedTask parseDate host td) = newTaskId (dateNow host) (random36 host)
   \<and> (\<forall>host' td'. task_id (generatedTask parseDate host' td') = task_id (generatedTask parseDate host td)
          \<longleftrightarrow> dateNow host' = dateNow host \<and> random36 host' = random36 host)
   \<and> title (generatedTask parseDate host td) =
        (case td_title td of None \<Rightarrow> ''Untitled Task''
         | Some s \<Rightarrow> if s = [] then ''Untitled Task'' else s)
   \<and> priority (generatedTask parseDate host td) =
        (case td_priority td of None \<Rightarrow> ''medium''
         | Some s \<Rightarrow> if s = [] then ''medium'' else s)
   \<and> (priority (generatedTask parseDate host td) \<in> validPriorities
        \<longleftrightarrow> (case td_priority td of None \<Rightarrow> True | Some s \<Rightarrow> s = [] \<or> s \<in> validPriorities))
   \<and> category (generatedTask parseDate host td) =
        (case td_category td of None \<Rightarrow> ''general''
         | Some s \<Rightarrow> if s = [] then ''general'' else s)
   \<and> tags (generatedTask parseDate host td) = (case td_tags td of None \<Rightarrow> [] | Some ts \<Rightarrow> ts)
   \<and> status (generatedTask parseDate host td) = Todo
   \<and> aiGenerated (generatedTask parseDate host td)
   \<and> createdAt (generatedTask parseDate host td) = TimeValue (newDateNow host)
   \<and> updatedAt (generatedTask parseDate host td) = TimeValue (newDateNow host)
   \<and> processedTasks parseDate hostAt [td] = [generatedTask parseDate (hostAt 0) td]"
proof -
  have ids: "task_id (generatedTask parseDate h t) = newTaskId (dateNow h) (random36 h)" for h t
    by (simp add: generatedTask_def Let_def)
  have prio: "priority (generatedTask parseDate host td) \<in> validPriorities
        \<longleftrightarrow> (case td_priority td of None \<Rightarrow> True | Some s \<Rightarrow> s = [] \<or> s \<in> validPriorities)"
    by (auto simp: generatedTask_def Let_def orElse_def validPriorities_def split: option.splits)
  have one: "processedTasks parseDate hostAt [td] = [generatedTask parseDate (hostAt 0) td]"
    by (simp add: processedTasks_def enumerate_simps)
  show ?thesis
    using prio one
    by (simp add: ids newTaskId_inject) (simp add: generatedTask_def Let_def orElse_def)
qed

theorem generatedTask_defaults_witness:
  "title (generatedTask isoDateOnly sampleHost (noTaskData\<lparr>td_title := Some ''Buy milk''\<rparr>)) = ''Buy milk''
   \<and> priority (generatedTask isoDateOnly sampleHost (noTaskData\<lparr>td_title := Some ''Buy milk''\<rparr>)) = ''medium''
   \<and> status (generatedTask isoDateOnly sampleHost (noTaskData\<lparr>td_title := Some ''Buy milk''\<rparr>)) = Todo
   \<and> category (generatedTask isoDateOnly sampleHost (noTaskData\<lparr>td_title := Some ''Buy milk''\<rparr>)) = ''general''
   \<and> aiGenerated (generatedTask isoDateOnly sampleHost (noTaskData\<lparr>td_title := Some ''Buy milk''\<rparr>))
   \<and> task_id (generatedTask isoDateOnly sampleHost (noTaskData\<lparr>td_title := Some ''Buy milk''\<rparr>))
       = ''task_1705276800001_k3j9x0a1z''
   \<and> task_id (generatedTask isoDateOnly (sampleHost\<lparr>random36 := ''0a0a0a0a0''\<rparr>)
         (noTaskData\<lparr>td_title := Some ''Buy milk''\<rparr>))
       \<noteq> task_id (generatedTask isoDateOnly sampleHost (noTaskData\<lparr>td_title := Some ''Buy milk''\<rparr>))
   \<and> processedTasks isoDateOnly (\<lambda>i. sampleHost) [noTaskData\<lparr>td_title := Some ''Buy milk''\<rparr>]
       = [generatedTask isoDateOnly sampleHost (noTaskData\<lparr>td_title := Some ''Buy milk''\<rparr>)]"
proof -
  let ?td = "noTaskData\<lparr>td_title := Some ''Buy milk''\<rparr>"
  let ?other = "sampleHost\<lparr>random36 := ''0a0a0a0a0''\<rparr>"
  note w = generatedTask_defaults [of isoDateOnly sampleHost ?td "\<lambda>i. sampleHost"]
  from w have fields:
    "title (generatedTask isoDateOnly sampleHost ?td) = ''Buy milk''
     \<and> priority (generatedTask isoDateOnly sampleHost ?td) = ''medium''
     \<and> status (generatedTask isoDateOnly sampleHost ?td) = Todo
     \<and> category (generatedTask isoDateOnly sampleHost ?td) = ''general''
     \<and> aiGenerated (generatedTask isoDateOnly sampleHost ?td)
     \<and> task_id (generatedTask isoDateOnly sampleHost ?td) = ''task_1705276800001_k3j9x0a1z''
     \<and> processedTasks isoDateOnly (\<lambda>i. sampleHost) [?td]
         = [generatedTask isoDateOnly sampleHost ?td]"
    by (simp add: noTaskData_def sampleHost_def newTaskId_def showInt_def showNat.simps
        digitChar_def)
  from w have "task_id (generatedTask isoDateOnly ?other ?td)
        = task_id (generatedTask isoDateOnly sampleHost ?td)
      \<longleftrightarrow> dateNow ?other = dateNow sampleHost \<and> random36 ?other = random36 sampleHost"
    by blast
  then have fresh: "task_id (generatedTask isoDateOnly ?other ?td)
      \<noteq> task_id (generatedTask isoDateOnly sampleHost ?td)"
    by (simp add: sampleHost_def)
  from fields fresh show ?thesis
    by simp
qed

text \<open>
  Claim C3 says that a due-date string that is present but does not parse is dropped: the
  task has no \<^verbatim>\<open>dueDate\<close> member. Both route handlers store the Invalid Date that
  \<^verbatim>\<open>new Date\<close> returns for it.
\<close>

theorem unparseable_dueDate_is_stored:
  "dueDate (generatedTask isoDateOnly sampleHost (noTaskData\<lparr>td_dueDate := Some ''tomorrow''\<rparr>))
     = Some InvalidDate
   \<and> dueDate (extractedTask isoDateOnly ''notes.txt'' sampleHost
        (noTaskData\<lparr>td_dueDate := Some ''tomorrow''\<rparr>))
     = Some InvalidDate"
  by (simp add: generatedTask_def extractedTask_def Let_def noTaskData_def dueDateSpread_def newDate_def
      isoDateOnly_def)

text \<open>
  Claim C3, amended: for every input record whose due-date string is present, not empty
  and unparseable, the reconciled task carries a \<^verbatim>\<open>dueDate\<close> member holding an Invalid
  Date, and no error is raised; the member is omitted exactly when the input has no
  due-date string or an empty one.
\<close>

theorem unparseable_dueDate_invalid:
  "(\<forall>s. td_dueDate td = Some s \<and> s \<noteq> [] \<and> parseDate s = None \<longrightarrow>
        dueDate (generatedTask parseDate host td) = Some InvalidDate
        \<and> dueDate (extractedTask parseDate documentName host td) = Some InvalidDate)
   \<and> (dueDate (generatedTask parseDate host td) = None
        \<longleftrightarrow> td_dueDate td = None \<or> td_dueDate td = Some [])
   \<and> (dueDate (extractedTask parseDate documentName host td) = None
        \<longleftrightarrow> td_dueDate td = None \<or> td_dueDate td = Some [])"
  by (auto simp: generatedTask_def extractedTask_def Let_def dueDateSpread_def newDate_def
      split: option.splits)

theorem unparseable_dueDate_invalid_witness:
  "isoDateOnly ''tomorrow'' = None
   \<and> dueDate (generatedTask isoDateOnly sampleHost
        (noTaskData\<lparr>td_title := Some ''Call Ana'', td_dueDate := Some ''tomorrow''\<rparr>))
     = Some InvalidDate
   \<and> dueDate (extractedTask isoDateOnly ''notes.txt'' sampleHost
        (noTaskData\<lparr>td_title := Some ''Call Ana'', td_dueDate := Some ''tomorrow''\<rparr>))
     = Some InvalidDate"
proof -
  have unparseable: "isoDateOnly ''tomorrow'' = None"
    by (simp add: isoDateOnly_def)
  show ?thesis
    using unparseable unparseable_dueDate_invalid
      [of "noTaskData\<lparr>td_title := Some ''Call Ana'', td_dueDate := Some ''tomorrow''\<rparr>"
        isoDateOnly sampleHost "''notes.txt''"]
    by (simp add: noTaskData_def)
qed

section \<open>The regular-expression match\<close>

lemma dropWhile_first:
  assumes "ob \<notin> set pre"
  shows "dropWhile (\<lambda>c. c \<noteq> ob) (pre @ ob # rest) = ob # rest"
proof -
  have "dropWhile (\<lambda>c. c \<noteq> ob) (pre @ ob # rest) = dropWhile (\<lambda>c. c \<noteq> ob) pre @ ob # rest"
    by (rule dropWhile_append3) simp
  moreover have "dropWhile (\<lambda>c. c \<noteq> ob) pre = []"
    using assms by (simp add: dropWhile_eq_Nil_conv) metis
  ultimately show ?thesis
    by simp
qed

lemma regexMatch_span:
  assumes "ob \<notin> set pre" and "cb \<notin> set post"
  shows "regexMatch ob cb (pre @ ob # mid @ cb # post) = Some (ob # mid @ [cb])"
proof -
  have first: "dropWhile (\<lambda>c. c \<noteq> ob) (pre @ ob # mid @ cb # post) = ob # mid @ cb # post"
    using assms(1) by (rule dropWhile_first)
  have "dropWhile (\<lambda>c. c \<noteq> cb) (rev post @ cb # rev mid) = cb # rev mid"
    by (rule dropWhile_first) (simp add: assms(2))
  then have last: "rev (dropWhile (\<lambda>c. c \<noteq> cb) (rev (mid @ cb # post))) = mid @ [cb]"
    by simp
  show ?thesis
    unfolding regexMatch_def first using last by simp
qed
lemma regexMatch_SomeD:
  assumes "regexMatch ob cb s = Some m"
  shows "\<exists>pre mid post. s = pre @ ob # mid @ cb # post \<and> ob \<notin> set pre \<and> cb \<notin> set post
           \<and> m = ob # mid @ [cb]"
proof -
  from assms obtain c rest where d: "dropWhile (\<lambda>c. c \<noteq> ob) s = c # rest" and "cb \<in> set rest"
    by (auto simp: regexMatch_def split: list.splits if_splits)
  from d have "c = ob"
    using hd_dropWhile [of "\<lambda>c. c \<noteq> ob" s] by simp
  from \<open>cb \<in> set rest\<close> obtain mid post where rest: "rest = mid @ cb # post" and "cb \<notin> set post"
    by (auto dest: split_list_last)
  let ?pre = "takeWhile (\<lambda>c. c \<noteq> ob) s"
  have s: "s = ?pre @ ob # mid @ cb # post"
    using takeWhile_dropWhile_id [of "\<lambda>c. c \<noteq> ob" s] d \<open>c = ob\<close> rest by simp
  have pre: "ob \<notin> set ?pre"
    by (auto dest: set_takeWhileD)
  from regexMatch_span [OF pre \<open>cb \<notin> set post\<close>, of mid] s assms have "m = ob # mid @ [cb]"
    by simp
  with s pre \<open>cb \<notin> set post\<close> show ?thesis
    by blast
qed

lemma regexMatch_None_iff:
  "regexMatch ob cb s = None \<longleftrightarrow> \<not> (\<exists>pre mid post. s = pre @ ob # mid @ cb # post)"
proof
  assume "regexMatch ob cb s = None"
  show "\<not> (\<exists>pre mid post. s = pre @ ob # mid @ cb # post)"
  proof
    assume "\<exists>pre mid post. s = pre @ ob # mid @ cb # post"
    then obtain pre mid post where s: "s = pre @ ob # mid @ cb # post"
      by blast
    then have "ob \<in> set s"
      by simp
    then obtain p1 r1 where s1: "s = p1 @ ob # r1" and p1: "ob \<notin> set p1"
      by (auto dest: split_list_first)
    have "dropWhile (\<lambda>c. c \<noteq> ob) s = ob # r1"
      unfolding s1 using p1 by (rule dropWhile_first)
    moreover have "dropWhile (\<lambda>c. c \<noteq> ob) s
        = dropWhile (\<lambda>c. c \<noteq> ob) pre @ ob # mid @ cb # post"
      unfolding s by (rule dropWhile_append3) simp
    ultimately have "ob # r1 = dropWhile (\<lambda>c. c \<noteq> ob) pre @ ob # mid @ cb # post"
      by simp
    then have "cb \<in> set r1"
      by (cases "dropWhile (\<lambda>c. c \<noteq> ob) pre") auto
    then obtain m1 q1 where "r1 = m1 @ cb # q1" and "cb \<notin> set q1"
      by (auto dest: split_list_last)
    with regexMatch_span [OF p1 this(2), of m1] s1 \<open>regexMatch ob cb s = None\<close> show False
      by simp
  qed
next
  assume "\<not> (\<exists>pre mid post. s = pre @ ob # mid @ cb # post)"
  with regexMatch_SomeD [of ob cb s] show "regexMatch ob cb s = None"
    by (cases "regexMatch ob cb s") blast+
qed

section \<open>The normalizer\<close>







lemma parseDocumentAnalysis_parsed:
  "regexMatch CHR ''{'' CHR ''}'' rsp = Some m \<Longrightarrow> jp m = Some parsed
   \<Longrightarrow> parseDocumentAnalysis jp rsp = Inr parsed"
  by (simp add: parseDocumentAnalysis_def parseDocumentAnalysis_try_def)









lemma JSON_parse_first_object: "JSON_parse ''{\"a\":1}'' = Some (JObj [(''a'', JNum 1)])"
  by (simp add: JSON_parse_def skipWs_def scanNumber_def literal_def isDigit_def readNat_def
      numeral_eq_Suc)




lemma JSON_parse_analysis:
  "JSON_parse ''{\"summary\":\"ok\",\"insights\":[\"a\",\"b\"]}''
     = Some (JObj [(''summary'', JStr ''ok''), (''insights'', JArr [JStr ''a'', JStr ''b''])])"
  by (simp add: JSON_parse_def skipWs_def scanNumber_def literal_def isDigit_def readNat_def
      numeral_eq_Suc)


text \<open>
  Claim C4 says that the document-analysis result is the parsed object merged with
  defaults, so that the members the JSON text does not supply are empty lists. On the
  example input the result is the parsed object alone: it has no member
  \<^verbatim>\<open>extractedTasks\<close>, \<^verbatim>\<open>keyTopics\<close> or \<^verbatim>\<open>actionItems\<close>.
\<close>

theorem parseDocumentAnalysis_merges_no_defaults:
  "parseDocumentAnalysis JSON_parse
      ''Some preamble {\"summary\":\"ok\",\"insights\":[\"a\",\"b\"]} trailing text''
     = Inr (JObj [(''summary'', JStr ''ok''), (''insights'', JArr [JStr ''a'', JStr ''b''])])
   \<and> getProp (JObj [(''summary'', JStr ''ok''), (''insights'', JArr [JStr ''a'', JStr ''b''])])
        ''extractedTasks'' = Inr None
   \<and> getProp (JObj [(''summary'', JStr ''ok''), (''insights'', JArr [JStr ''a'', JStr ''b''])])
        ''keyTopics'' = Inr None
   \<and> getProp (JObj [(''summary'', JStr ''ok''), (''insights'', JArr [JStr ''a'', JStr ''b''])])
        ''actionItems'' = Inr None"
proof -
  have "regexMatch CHR ''{'' CHR ''}''
      ''Some preamble {\"summary\":\"ok\",\"insights\":[\"a\",\"b\"]} trailing text''
      = Some ''{\"summary\":\"ok\",\"insights\":[\"a\",\"b\"]}''"
    by (simp add: regexMatch_def)
  then show ?thesis
    by (simp add: parseDocumentAnalysis_def parseDocumentAnalysis_try_def JSON_parse_analysis)
qed

text \<open>
  Claim C4, amended: for a raw response with an embedded JSON object, that is, one whose
  span from the first \<^verbatim>\<open>{\<close> to the last \<^verbatim>\<open>}\<close> parses, \<^verbatim>\<open>parseDocumentAnalysis\<close> returns the
  parsed value as it is, with no defaults merged in: a member the JSON text does not
  supply is absent from the result. On the example input the result is the object with
  the two members \<^verbatim>\<open>summary\<close> and \<^verbatim>\<open>insights\<close>.
\<close>

theorem parseDocumentAnalysis_returns_parsed:
  "(CHR ''{'' \<notin> set pre \<and> CHR ''}'' \<notin> set post \<and> jp (CHR ''{'' # mid @ ''}'') = Some parsed
      \<longrightarrow> parseDocumentAnalysis jp (pre @ CHR ''{'' # mid @ CHR ''}'' # post) = Inr parsed)
   \<and> (jp ''{\"summary\":\"ok\",\"insights\":[\"a\",\"b\"]}'' = Some parsed'
      \<longrightarrow> parseDocumentAnalysis jp
            ''Some preamble {\"summary\":\"ok\",\"insights\":[\"a\",\"b\"]} trailing text''
          = Inr parsed')"
proof -
  have general: "parseDocumentAnalysis jp (pre @ CHR ''{'' # mid @ CHR ''}'' # post) = Inr parsed"
    if "CHR ''{'' \<notin> set pre" and "CHR ''}'' \<notin> set post"
      and "jp (CHR ''{'' # mid @ ''}'') = Some parsed"
    using regexMatch_span [OF that(1,2), of mid] that(3)
    by (rule parseDocumentAnalysis_parsed)
  have "regexMatch CHR ''{'' CHR ''}''
      ''Some preamble {\"summary\":\"ok\",\"insights\":[\"a\",\"b\"]} trailing text''
      = Some ''{\"summary\":\"ok\",\"insights\":[\"a\",\"b\"]}''"
    by (simp add: regexMatch_def)
  then have example: "parseDocumentAnalysis jp
        ''Some preamble {\"summary\":\"ok\",\"insights\":[\"a\",\"b\"]} trailing text''
      = Inr parsed'"
    if "jp ''{\"summary\":\"ok\",\"insights\":[\"a\",\"b\"]}'' = Some parsed'"
    using that by (rule parseDocumentAnalysis_parsed)
  from general example show ?thesis
    by blast
qed

theorem parseDocumentAnalysis_returns_parsed_witness:
  "parseDocumentAnalysis JSON_parse ''Summary follows. {\"a\":1} Thanks.''
     = Inr (JObj [(''a'', JNum 1)])
   \<and> parseDocumentAnalysis JSON_parse
        ''Some preamble {\"summary\":\"ok\",\"insights\":[\"a\",\"b\"]} trailing text''
     = Inr (JObj [(''summary'', JStr ''ok''), (''insights'', JArr [JStr ''a'', JStr ''b''])])"
  using parseDocumentAnalysis_returns_parsed
      [where pre = "''Summary follows. ''" and mid = "''\"a\":1''" and post = "'' Thanks.''"
        and jp = JSON_parse and parsed = "JObj [(''a'', JNum 1)]"
        and parsed' = "JObj [(''summary'', JStr ''ok''), (''insights'', JArr [JStr ''a'', JStr ''b''])]"]
    JSON_parse_first_object JSON_parse_analysis
  by simp

end
